theory Spec2Isabelle
  imports Complex_Main "HOL-Library.Sublist"
begin

section \<open>Python values\<close>

text \<open>
  A Python \<^verbatim>\<open>str\<close> is a sequence of Unicode code points, and \<^verbatim>\<open>len\<close> counts code
  points; a HOL character is one byte. Texts are therefore lists of code points, and
  \<open>lit\<close> turns an ASCII literal of the source into one.
\<close>

type_synonym pystr = "nat list"

definition lit :: "string \<Rightarrow> pystr" where
  "lit s = map of_char s"

text \<open>
  A float is the rational it denotes, or one of the three non-finite values. The
  literals of the source (0.95, 0.75, 0.6, 0.5, 0.0) stand for their decimal values:
  no double lies strictly between the double nearest to 0.6 and 6/10, so
  \<^verbatim>\<open>x > 0.6\<close> on doubles and on these rationals agree.
\<close>

datatype pyfloat = Finite rat | PInf | NInf | NaN

datatype pyval =
    VNone
  | VBool bool
  | VInt int
  | VFloat pyfloat
  | VStr pystr
  | VList "pyval list"
  | VDict "(nat list \<times> pyval) list"

text \<open>A dict with string keys, in insertion order; \<open>map_of\<close> is the lookup.\<close>

type_synonym pydict = "(pystr \<times> pyval) list"

text \<open>
  Exceptions (subclasses of \<^verbatim>\<open>Exception\<close>), with the text \<^verbatim>\<open>str(e)\<close> gives:
  the \<^verbatim>\<open>TypeError\<close> of a builtin applied to a value of the wrong type, and whatever
  an external call raises. Interrupts of the interpreter (\<^verbatim>\<open>KeyboardInterrupt\<close>,
  \<^verbatim>\<open>SystemExit\<close>), which are not such subclasses, are not modelled.
\<close>

datatype exc = TypeError pystr | Exception pystr

fun str_exc :: "exc \<Rightarrow> pystr" where
  "str_exc (TypeError m) = m"
| "str_exc (Exception m) = m"

fun type_name :: "pyval \<Rightarrow> pystr" where
  "type_name VNone = lit ''NoneType''"
| "type_name (VBool b) = lit ''bool''"
| "type_name (VInt i) = lit ''int''"
| "type_name (VFloat f) = lit ''float''"
| "type_name (VStr s) = lit ''str''"
| "type_name (VList xs) = lit ''list''"
| "type_name (VDict d) = lit ''dict''"

text \<open>\<^verbatim>\<open>len(v)\<close>: defined on strings, lists and dicts; a \<^verbatim>\<open>TypeError\<close> otherwise.\<close>

fun py_len :: "pyval \<Rightarrow> exc + nat" where
  "py_len (VStr s) = Inr (length s)"
| "py_len (VList xs) = Inr (length xs)"
| "py_len (VDict d) = Inr (length d)"
| "py_len v = Inl (TypeError (lit ''object of type '' @ [39] @ type_name v @ [39] @ lit '' has no len()''))"

text \<open>
  Iterating over a value, as \<^verbatim>\<open>[c for c in v]\<close> does: the characters of a string, the
  elements of a list, the keys of a dict; a \<^verbatim>\<open>TypeError\<close> otherwise.
\<close>

fun py_iter :: "pyval \<Rightarrow> exc + pyval list" where
  "py_iter (VStr s) = Inr (map (\<lambda>c. VStr [c]) s)"
| "py_iter (VList xs) = Inr xs"
| "py_iter (VDict d) = Inr (map (\<lambda>kv. VStr (fst kv)) d)"
| "py_iter v = Inl (TypeError ([39] @ type_name v @ [39] @ lit '' object is not iterable''))"

text \<open>
  \<^verbatim>\<open>v > x\<close> for a float literal \<open>x\<close>: numbers (bool, int, float) compare by value,
  NaN compares false, anything else raises \<^verbatim>\<open>TypeError\<close>.
\<close>

fun py_gt_float :: "pyval \<Rightarrow> rat \<Rightarrow> exc + bool" where
  "py_gt_float (VBool b) x = Inr (x < (if b then 1 else 0))"
| "py_gt_float (VInt i) x = Inr (x < of_int i)"
| "py_gt_float (VFloat (Finite q)) x = Inr (x < q)"
| "py_gt_float (VFloat PInf) x = Inr True"
| "py_gt_float (VFloat NInf) x = Inr False"
| "py_gt_float (VFloat NaN) x = Inr False"
| "py_gt_float v x = Inl (TypeError ([39] @ lit ''>'' @ [39] @ lit '' not supported between instances of ''
      @ [39] @ type_name v @ [39] @ lit '' and '' @ [39] @ lit ''float'' @ [39]))"

text \<open>The values \<^verbatim>\<open>>\<close> compares with a float: bool, int and float.\<close>

fun is_number :: "pyval \<Rightarrow> bool" where
  "is_number (VBool b) = True"
| "is_number (VInt i) = True"
| "is_number (VFloat f) = True"
| "is_number v = False"

text \<open>\<^verbatim>\<open>d.get(k, default)\<close>.\<close>

definition dict_get :: "pydict \<Rightarrow> pystr \<Rightarrow> pyval \<Rightarrow> pyval" where
  "dict_get d k dflt = (case map_of d k of None \<Rightarrow> dflt | Some v \<Rightarrow> v)"

text \<open>\<^verbatim>\<open>xs[-n:]\<close> for a positive \<open>n\<close>: the last \<open>n\<close> elements, all of them when there are fewer.\<close>

definition py_last :: "nat \<Rightarrow> 'a list \<Rightarrow> 'a list" where
  "py_last n xs = drop (length xs - n) xs"


subsection \<open>Text operations\<close>

text \<open>\<^verbatim>\<open>str(n)\<close> for an int: decimal digits, with a sign.\<close>

fun str_nat :: "nat \<Rightarrow> pystr" where
  "str_nat n = (if n < 10 then [48 + n] else str_nat (n div 10) @ [48 + n mod 10])"

declare str_nat.simps [simp del]

definition str_int :: "int \<Rightarrow> pystr" where
  "str_int i = (if i < 0 then 45 # str_nat (nat (- i)) else str_nat (nat i))"

text \<open>\<^verbatim>\<open>int(x)\<close> of a float truncates towards zero.\<close>

definition py_int :: "rat \<Rightarrow> int" where
  "py_int x = (if 0 \<le> x then \<lfloor>x\<rfloor> else \<lceil>x\<rceil>)"

text \<open>
  Rounding to binary64, to the nearest value with ties to even: \<open>binary_exponent x\<close> is
  the \<open>e\<close> with \<open>2 ^ e \<le> x < 2 ^ (e + 1)\<close> for a positive \<open>x\<close>, and the spacing of the
  doubles around \<open>x\<close> is \<open>2 ^ (e - 52)\<close>, or \<open>2 ^ (- 1074)\<close> below the normal range.
\<close>

definition round_half_even :: "rat \<Rightarrow> int" where
  "round_half_even x =
     (let f = \<lfloor>x\<rfloor>; d = x - of_int \<lfloor>x\<rfloor>
      in if d < 1/2 then f else if 1/2 < d then f + 1 else if even f then f else f + 1)"

function bit_length :: "int \<Rightarrow> nat" where
  "bit_length n = (if n \<le> 0 then 0 else Suc (bit_length (n div 2)))"
  by pat_completeness auto
termination
  by (relation "measure nat") auto

declare bit_length.simps [simp del]

definition pow2 :: "int \<Rightarrow> rat" where
  "pow2 k = (if 0 \<le> k then 2 ^ nat k else 1 / 2 ^ nat (- k))"

definition binary_exponent :: "rat \<Rightarrow> int" where
  "binary_exponent x =
     (if 1 \<le> x then int (bit_length \<lfloor>x\<rfloor>) - 1
      else (let j = int (bit_length \<lfloor>1 / x\<rfloor>)
            in if x * pow2 (j - 1) = 1 then - (j - 1) else - j))"

definition to_double :: "rat \<Rightarrow> rat" where
  "to_double x =
     (if x = 0 then 0
      else (let u = pow2 (max (binary_exponent \<bar>x\<bar>) (- 1022) - 52)
            in sgn x * of_int (round_half_even (\<bar>x\<bar> / u)) * u))"

text \<open>
  \<^verbatim>\<open>format(x, ".0%")\<close>, as CPython computes it: the double \<open>x\<close> is multiplied by 100
  in double arithmetic, and the product is printed with no decimals, rounded from its
  exact value with ties to even, followed by a percent sign; a product beyond the largest
  double prints as \<^verbatim>\<open>inf\<close>. A rational that is not a double stands for the double its
  decimal literal denotes. (A rational has no negative zero.)
\<close>

definition format_percent0 :: "rat \<Rightarrow> pystr" where
  "format_percent0 x =
     (let v = to_double (to_double x * 100)
      in (if v < 0 then [45] else [])
         @ (if pow2 1024 \<le> \<bar>v\<bar> then lit ''inf'' else str_nat (nat (round_half_even \<bar>v\<bar>)))
         @ lit ''%'')"

text \<open>\<^verbatim>\<open>sep.join(xs)\<close>.\<close>

fun py_join :: "pystr \<Rightarrow> pystr list \<Rightarrow> pystr" where
  "py_join sep [] = []"
| "py_join sep [x] = x"
| "py_join sep (x # y # ys) = x @ sep @ py_join sep (y # ys)"

text \<open>\<^verbatim>\<open>s.split(c)\<close> for a one-character separator: never empty, one more part than separators.\<close>

fun py_split :: "nat \<Rightarrow> pystr \<Rightarrow> pystr list" where
  "py_split c [] = [[]]"
| "py_split c (x # xs) =
     (if x = c then [] # py_split c xs
      else (case py_split c xs of [] \<Rightarrow> [[x]] | p # ps \<Rightarrow> (x # p) # ps))"

text \<open>The code points \<^verbatim>\<open>str.isspace\<close> accepts.\<close>

definition is_space :: "nat \<Rightarrow> bool" where
  "is_space c \<longleftrightarrow>
     (9 \<le> c \<and> c \<le> 13) \<or> (28 \<le> c \<and> c \<le> 32) \<or> c = 133 \<or> c = 160 \<or> c = 5760 \<or>
     (8192 \<le> c \<and> c \<le> 8202) \<or> c = 8232 \<or> c = 8233 \<or> c = 8239 \<or> c = 8287 \<or> c = 12288"

text \<open>\<^verbatim>\<open>s.strip()\<close> and \<^verbatim>\<open>s.strip(chars)\<close>.\<close>

definition strip_while :: "(nat \<Rightarrow> bool) \<Rightarrow> pystr \<Rightarrow> pystr" where
  "strip_while P s = rev (dropWhile P (rev (dropWhile P s)))"

definition py_strip :: "pystr \<Rightarrow> pystr" where
  "py_strip s = strip_while is_space s"

definition py_strip_chars :: "pystr \<Rightarrow> pystr \<Rightarrow> pystr" where
  "py_strip_chars chars s = strip_while (\<lambda>c. c \<in> set chars) s"

section \<open>State coordination layer: WorkflowState\<close>

datatype WorkflowStatus = PENDING | IN_PROGRESS | COMPLETED | FAILED

record log_entry =
  timestamp :: pystr
  event_type :: pystr
  message :: pystr
  data :: pydict

text \<open>A \<^verbatim>\<open>datetime\<close> is the number of microseconds since the epoch.\<close>

type_synonym datetime = int

record WorkflowState =
  workflow_id :: pystr
  task :: pystr
  status :: WorkflowStatus
  current_step :: int
  total_steps :: int
  steps_completed :: "pystr list"
  step_results :: pydict
  execution_log :: "log_entry list"
  start_time :: "datetime option"
  end_time :: "datetime option"

text \<open>The dataclass constructor with its three positional arguments and the field defaults.\<close>

definition new_WorkflowState :: "pystr \<Rightarrow> pystr \<Rightarrow> WorkflowStatus \<Rightarrow> WorkflowState" where
  "new_WorkflowState wid t st =
     \<lparr>workflow_id = wid, task = t, status = st, current_step = 0, total_steps = 0,
      steps_completed = [], step_results = [], execution_log = [],
      start_time = None, end_time = None\<rparr>"

text \<open>
  \<^verbatim>\<open>log_event\<close>. The clock is outside the program: \<open>now_iso\<close> is the value of
  \<^verbatim>\<open>datetime.now().isoformat()\<close> at the call. \<^verbatim>\<open>data or {}\<close> replaces \<^verbatim>\<open>None\<close>
  (and an empty dict) by an empty dict.
\<close>

definition new_entry :: "pystr \<Rightarrow> pystr \<Rightarrow> pystr \<Rightarrow> pydict option \<Rightarrow> log_entry" where
  "new_entry now_iso ev msg dat =
     \<lparr>timestamp = now_iso, event_type = ev, message = msg,
      data = (case dat of None \<Rightarrow> [] | Some d \<Rightarrow> d)\<rparr>"

definition log_event :: "pystr \<Rightarrow> pystr \<Rightarrow> pystr \<Rightarrow> pydict option \<Rightarrow> WorkflowState \<Rightarrow> WorkflowState" where
  "log_event now_iso ev msg dat s =
     (let s1 = (if 500 \<le> length (execution_log s)
                then s\<lparr>execution_log := py_last 400 (execution_log s)\<rparr> else s)
      in s1\<lparr>execution_log := execution_log s1 @ [new_entry now_iso ev msg dat]\<rparr>)"

text \<open>A sequence of \<^verbatim>\<open>log_event\<close> calls, each with its clock reading and arguments.\<close>

type_synonym log_call = "pystr \<times> pystr \<times> pystr \<times> pydict option"

fun entry_of :: "log_call \<Rightarrow> log_entry" where
  "entry_of (now_iso, ev, msg, dat) = new_entry now_iso ev msg dat"

fun log_events :: "log_call list \<Rightarrow> WorkflowState \<Rightarrow> WorkflowState" where
  "log_events [] s = s"
| "log_events ((now_iso, ev, msg, dat) # cs) s = log_events cs (log_event now_iso ev msg dat s)"

section \<open>Cognitive agent layer\<close>


subsection \<open>The external generation capability\<close>

text \<open>
  \<^verbatim>\<open>co.chat(message=..., model=..., connectors=..., temperature=...)\<close> is a call out of
  the program: it reads and changes a world \<open>'w\<close>, and either returns a response or raises.
\<close>

record request =
  req_message :: pystr
  req_model :: "pystr option"
  req_connectors :: "pydict list option"
  req_temperature :: rat

text \<open>
  Modelled from the spec: the response type of the generation client is declared in the
  cohere library, not in this repository. Section 6 of the spec gives its shape as a text
  and a sequence of citations. The text is a \<^verbatim>\<open>str\<close>. The \<^verbatim>\<open>citations\<close> attribute is
  whatever value the client puts there, a list or \<^verbatim>\<open>None\<close> or anything else, and the
  executor's \<^verbatim>\<open>hasattr\<close> test admits a response without the attribute, which is
  \<open>None\<close> here.
\<close>

record response =
  resp_text :: pystr
  resp_citations :: "pyval option"

type_synonym 'w chat = "request \<Rightarrow> 'w \<Rightarrow> (exc + response) \<times> 'w"

subsection \<open>PlannerAgent\<close>

record plan =
  steps :: "pystr list"
  complexity :: pystr
  output_type :: pystr

definition planner_prompt :: "pystr \<Rightarrow> pystr" where
  "planner_prompt t =
     lit ''You are a Strategic Planner Agent. Break down this task: '' @ [34] @ t @ [34] @ lit '' '' @ [10]
     @ lit ''        into 3 to 4 sequential, actionable search/analysis steps. '' @ [10]
     @ lit ''        Format: Return ONLY the steps separated by newlines.''"

definition planner_request :: "pystr \<Rightarrow> request" where
  "planner_request t =
     \<lparr>req_message = planner_prompt t, req_model = None, req_connectors = None, req_temperature = 3/10\<rparr>"

definition fallback_plan :: plan where
  "fallback_plan =
     \<lparr>steps = [lit ''Research the topic overview'', lit ''Analyze key trends and data'',
               lit ''Synthesize findings''],
      complexity = lit ''medium'', output_type = lit ''plan''\<rparr>"

definition parse_steps :: "pystr \<Rightarrow> pystr list" where
  "parse_steps txt =
     map (\<lambda>s. py_strip (py_strip_chars (lit ''- '') s))
       (filter (\<lambda>s. py_strip s \<noteq> []) (py_split 10 txt))"

text \<open>
  \<^verbatim>\<open>PlannerAgent.execute(task, context)\<close>. The bare \<^verbatim>\<open>except:\<close> covers the call and the
  parsing, so the function has no raising branch.
\<close>

definition planner_execute :: "'w chat \<Rightarrow> pystr \<Rightarrow> 'w \<Rightarrow> plan \<times> 'w" where
  "planner_execute co t w =
     (case co (planner_request t) w of
        (Inr resp, w') \<Rightarrow>
          (let stps = parse_steps (resp_text resp)
           in (\<lparr>steps = stps,
                complexity = (if 3 < length stps then lit ''high'' else lit ''medium''),
                output_type = lit ''plan''\<rparr>, w'))
      | (Inl e, w') \<Rightarrow> (fallback_plan, w'))"

subsection \<open>ExecutorAgent\<close>

text \<open>
  The dict \<^verbatim>\<open>ExecutorAgent.execute\<close> returns, field by field. The \<^verbatim>\<open>except\<close> branch
  builds a dict with no \<^verbatim>\<open>citations\<close> key: \<open>res_citations\<close> is \<open>None\<close> there.
  \<open>dict_of_result\<close> is the dict itself, as the validator receives it.
\<close>

record step_result =
  res_status :: pystr
  res_output :: pystr
  res_confidence :: rat
  res_citations :: "pyval list option"

definition dict_of_result :: "step_result \<Rightarrow> pydict" where
  "dict_of_result r =
     [(lit ''status'', VStr (res_status r)), (lit ''output'', VStr (res_output r)),
      (lit ''confidence'', VFloat (Finite (res_confidence r)))]
     @ (case res_citations r of None \<Rightarrow> [] | Some cs \<Rightarrow> [(lit ''citations'', VList cs)])"

definition executor_request :: "pystr \<Rightarrow> request" where
  "executor_request step =
     \<lparr>req_message = lit ''Perform this task in detail: '' @ step, req_model = None,
      req_connectors = Some [[(lit ''id'', VStr (lit ''web-search''))]], req_temperature = 3/10\<rparr>"

text \<open>The dict the \<^verbatim>\<open>except\<close> branch returns for the exception \<open>e\<close>.\<close>

definition failed_result :: "exc \<Rightarrow> step_result" where
  "failed_result e =
     \<lparr>res_status = lit ''failed'', res_output = str_exc e, res_confidence = 0,
      res_citations = None\<rparr>"

text \<open>
  \<^verbatim>\<open>ExecutorAgent.execute(step, context)\<close>. Everything is inside the \<^verbatim>\<open>try\<close>: an
  exception of the call, of \<^verbatim>\<open>len(response.citations)\<close> or of the iteration over the
  citations ends in the \<^verbatim>\<open>except\<close> branch.
\<close>

definition executor_execute :: "'w chat \<Rightarrow> pystr \<Rightarrow> 'w \<Rightarrow> step_result \<times> 'w" where
  "executor_execute co step w =
     (case co (executor_request step) w of
        (Inr resp, w') \<Rightarrow>
          (let output_text = resp_text resp in
           case (case resp_citations resp of
                   None \<Rightarrow> Inr False
                 | Some cs \<Rightarrow> (case py_len cs of Inl e \<Rightarrow> Inl e | Inr n \<Rightarrow> Inr (0 < n))) of
             Inl e \<Rightarrow> (failed_result e, w')
           | Inr has_citations \<Rightarrow>
               (let conf = (if has_citations then 95/100 else 75/100) in
                case (case resp_citations resp of
                        None \<Rightarrow> Inr []
                      | Some cs \<Rightarrow> if has_citations then py_iter cs else Inr []) of
                  Inl e \<Rightarrow> (failed_result e, w')
                | Inr cits \<Rightarrow>
                    (\<lparr>res_status = lit ''success'', res_output = output_text,
                      res_confidence = conf, res_citations = Some cits\<rparr>, w')))
      | (Inl e, w') \<Rightarrow> (failed_result e, w'))"

subsection \<open>ValidatorAgent\<close>

record validation_result =
  is_valid :: bool
  val_confidence :: pyval
  feedback :: pystr

text \<open>
  \<^verbatim>\<open>ValidatorAgent.execute(result, context)\<close>; the context is not read. \<^verbatim>\<open>len\<close> is
  evaluated first, then the confidence is fetched, and \<^verbatim>\<open>and\<close> compares the
  confidence only when the length test holds.
\<close>

definition validator_execute :: "pydict \<Rightarrow> exc + validation_result" where
  "validator_execute result =
     (case py_len (dict_get result (lit ''output'') (VStr [])) of
        Inl e \<Rightarrow> Inl e
      | Inr output_len \<Rightarrow>
          let base_conf = dict_get result (lit ''confidence'') (VFloat (Finite (5/10))) in
          (case (if 50 < output_len then py_gt_float base_conf (6/10) else Inr False) of
             Inl e \<Rightarrow> Inl e
           | Inr valid \<Rightarrow>
               Inr \<lparr>is_valid = valid, val_confidence = base_conf,
                    feedback = (if valid then lit ''Content verified successfully.''
                                else lit ''Content too short or lacks citations.'')\<rparr>))"

section \<open>Agentic infrastructure layer: WorkflowOrchestrator\<close>

text \<open>
  What the run touches outside itself: the generation client \<^verbatim>\<open>self.co\<close>, the caller's
  \<^verbatim>\<open>event_callback\<close> (of type \<^verbatim>\<open>Callable[[str, Dict], None]\<close>: it acts on the world
  and returns nothing), and the two clocks. The callback is the caller's code and is taken
  to return normally; what the run does when the generation client raises is modelled in
  full. \<^verbatim>\<open>time.sleep\<close> only passes time and is left out.
\<close>

record 'w env =
  co :: "'w chat"
  event_callback :: "pystr \<Rightarrow> pydict \<Rightarrow> 'w \<Rightarrow> 'w"
  datetime_now :: "'w \<Rightarrow> datetime"
  time_time :: "'w \<Rightarrow> rat"

text \<open>
  The run is observed through the list of interactions it performs, in program order:
  every callback invocation with its event, every agent invocation with what it returned,
  and the synthesis call. The source keeps no such list; it is what a test double of the
  callback and of the agents would record.
\<close>

datatype action =
    Emitted pystr pydict
  | Planned pystr plan
  | Executed pystr step_result
  | Validated pydict "exc + validation_result"
  | Synthesized request "exc + response"

record 'w ctx =
  world :: 'w
  calls :: "action list"

definition invoked :: "action \<Rightarrow> 'w \<Rightarrow> 'w ctx \<Rightarrow> 'w ctx" where
  "invoked a w c = \<lparr>world = w, calls = calls c @ [a]\<rparr>"

text \<open>
  The helper \<^verbatim>\<open>emit(type_, msg, role='info', node=None)\<close>: one synchronous call of the
  callback with the three-key payload. The defaults are written out at each call.
\<close>

definition payload :: "pyval \<Rightarrow> pystr \<Rightarrow> pystr option \<Rightarrow> pydict" where
  "payload msg role node =
     [(lit ''msg'', msg), (lit ''role'', VStr role),
      (lit ''node'', (case node of None \<Rightarrow> VNone | Some n \<Rightarrow> VStr n))]"

definition emit :: "'w env \<Rightarrow> pystr \<Rightarrow> pyval \<Rightarrow> pystr \<Rightarrow> pystr option \<Rightarrow> 'w ctx \<Rightarrow> 'w ctx" where
  "emit env ty msg role node c =
     invoked (Emitted ty (payload msg role node))
       (event_callback env ty (payload msg role node) (world c)) c"

text \<open>The two non-ASCII marks of the log messages: U+26A0 U+FE0F and U+2705.\<close>

definition warning_sign :: pystr where
  "warning_sign = [9888, 65039]"

definition check_mark :: pystr where
  "check_mark = [9989]"

definition section_of :: "pystr \<Rightarrow> pystr \<Rightarrow> pystr" where
  "section_of step out = lit ''### '' @ step @ [10] @ out @ [10]"

text \<open>
  One iteration of the loop over \<^verbatim>\<open>enumerate(steps)\<close>: \<open>i\<close> is the index, \<open>acc\<close> the
  list \<^verbatim>\<open>accumulated_report\<close>. \<^verbatim>\<open>continue\<close> returns with the list as it was; an
  exception leaves the loop with \<open>Inl\<close>.
\<close>

definition do_step :: "'w env \<Rightarrow> nat \<Rightarrow> pystr \<Rightarrow> pystr list \<Rightarrow> 'w ctx \<Rightarrow> (exc + pystr list) \<times> 'w ctx" where
  "do_step env i step acc c =
     (let c1 = emit env (lit ''activate'') (VStr (lit ''Executing: '' @ step)) (lit ''info'')
                 (Some (lit ''executor'')) c;
          (exec_res, w2) = executor_execute (co env) step (world c1);
          c2 = invoked (Executed step exec_res) w2 c1
      in if res_status exec_res = lit ''failed'' then
           (Inr acc,
            emit env (lit ''log'') (VStr (warning_sign @ lit '' Step failed: '' @ res_output exec_res))
              (lit ''error'') None c2)
         else
           (let c3 = emit env (lit ''activate'') (VStr (lit ''Verifying Data Integrity...'')) (lit ''info'')
                       (Some (lit ''validator'')) c2;
                val_res = validator_execute (dict_of_result exec_res);
                c4 = invoked (Validated (dict_of_result exec_res) val_res) (world c3) c3
            in case val_res of
                 Inl e \<Rightarrow> (Inl e, c4)
               | Inr v \<Rightarrow>
                   (let c5 = emit env (lit ''activate'') (VStr (lit ''Quality Gate Decision'')) (lit ''info'')
                               (Some (lit ''decision'')) c4
                    in if is_valid v then
                         (Inr (acc @ [section_of step (res_output exec_res)]),
                          emit env (lit ''log'')
                            (VStr (check_mark @ lit '' Phase '' @ str_nat (i + 1)
                                   @ lit '' Verified (Confidence: ''
                                   @ format_percent0 (res_confidence exec_res) @ lit '')''))
                            (lit ''success'') None c5)
                       else
                         (Inr (acc @ [section_of step (res_output exec_res)]),
                          emit env (lit ''log'')
                            (VStr (warning_sign @ lit '' Quality Warning: '' @ feedback v))
                            (lit ''warning'') None c5))))"

fun run_steps :: "'w env \<Rightarrow> nat \<Rightarrow> pystr list \<Rightarrow> pystr list \<Rightarrow> 'w ctx \<Rightarrow> (exc + pystr list) \<times> 'w ctx" where
  "run_steps env i [] acc c = (Inr acc, c)"
| "run_steps env i (step # rest) acc c =
     (case do_step env i step acc c of
        (Inl e, c') \<Rightarrow> (Inl e, c')
      | (Inr acc', c') \<Rightarrow> run_steps env (Suc i) rest acc' c')"

definition final_prompt :: "pystr \<Rightarrow> pystr \<Rightarrow> pystr" where
  "final_prompt t full_context =
     lit ''Based on the following research segments about '' @ [39] @ t @ [39]
     @ lit '', write a cohesive, professional markdown report:'' @ [10, 10] @ full_context"

definition final_request :: "pystr \<Rightarrow> pystr list \<Rightarrow> request" where
  "final_request t accumulated_report =
     \<lparr>req_message = final_prompt t (py_join [10] accumulated_report),
      req_model = Some (lit ''command-r''), req_connectors = None, req_temperature = 3/10\<rparr>"

text \<open>
  The body of the \<^verbatim>\<open>try\<close>: it returns the state and the context reached, with \<open>Inl e\<close>
  when it left by an exception \<open>e\<close>.
\<close>

definition try_body :: "'w env \<Rightarrow> pystr \<Rightarrow> WorkflowState \<Rightarrow> 'w ctx \<Rightarrow> (exc + unit) \<times> WorkflowState \<times> 'w ctx" where
  "try_body env t state c =
     (let c1 = emit env (lit ''status'') (VStr (lit ''System Initialized.'')) (lit ''info'')
                 (Some (lit ''start'')) c;
          state1 = state\<lparr>start_time := Some (datetime_now env (world c1))\<rparr>;
          c2 = emit env (lit ''activate'') (VStr (lit ''Analyzing Task Strategy...'')) (lit ''info'')
                 (Some (lit ''planner'')) c1;
          (pl, w3) = planner_execute (co env) t (world c2);
          c3 = invoked (Planned t pl) w3 c2;
          stps = steps pl;
          state2 = state1\<lparr>total_steps := int (length stps)\<rparr>;
          c4 = emit env (lit ''log'')
                 (VStr (lit ''Strategy formed with '' @ str_nat (length stps) @ lit '' phases.''))
                 (lit ''planner'') None c3
      in case run_steps env 0 stps [] c4 of
           (Inl e, c5) \<Rightarrow> (Inl e, state2, c5)
         | (Inr accumulated_report, c5) \<Rightarrow>
             (let c6 = emit env (lit ''activate'')
                         (VStr (lit ''Synthesizing Final Intelligence Report...'')) (lit ''info'')
                         (Some (lit ''end'')) c5;
                  (r, w7) = co env (final_request t accumulated_report) (world c6);
                  c7 = invoked (Synthesized (final_request t accumulated_report) r) w7 c6
              in case r of
                   Inl e \<Rightarrow> (Inl e, state2, c7)
                 | Inr final_response \<Rightarrow>
                     (Inr (), state2\<lparr>status := COMPLETED\<rparr>,
                      emit env (lit ''finish'')
                        (VDict [(lit ''report'', VStr (resp_text final_response))])
                        (lit ''info'') None c7)))"

text \<open>
  \<^verbatim>\<open>execute_workflow(task, event_callback)\<close>. The Python function returns nothing and
  drops its state; the model returns the state and the context it ends with.
\<close>

definition execute_workflow :: "'w env \<Rightarrow> pystr \<Rightarrow> 'w \<Rightarrow> WorkflowState \<times> 'w ctx" where
  "execute_workflow env t w =
     (let wid = lit ''wf_'' @ str_int (py_int (time_time env w));
          state = new_WorkflowState wid t PENDING
      in case try_body env t state \<lparr>world = w, calls = []\<rparr> of
           (Inr u, state', c') \<Rightarrow> (state', c')
         | (Inl e, state', c') \<Rightarrow>
             (state'\<lparr>status := FAILED\<rparr>,
              emit env (lit ''log'') (VStr (lit ''Critical System Failure: '' @ str_exc e))
                (lit ''error'') None c'))"

subsection \<open>Observations on a run\<close>

text \<open>
  What the claims count or read in the list of interactions: the \<^verbatim>\<open>activate\<close> events
  of a node, the executions that failed, the plans, the validator's inputs and the
  synthesis requests.
\<close>

fun is_activate :: "pystr \<Rightarrow> action \<Rightarrow> bool" where
  "is_activate node (Emitted ty pl) =
     (ty = lit ''activate'' \<and> map_of pl (lit ''node'') = Some (VStr node))"
| "is_activate node a = False"

fun is_failed_execution :: "action \<Rightarrow> bool" where
  "is_failed_execution (Executed step r) = (res_status r = lit ''failed'')"
| "is_failed_execution a = False"

fun planned :: "action \<Rightarrow> (pystr \<times> plan) list" where
  "planned (Planned t pl) = [(t, pl)]"
| "planned a = []"

fun validated :: "action \<Rightarrow> pydict list" where
  "validated (Validated d v) = [d]"
| "validated a = []"

fun synthesized :: "action \<Rightarrow> (request \<times> (exc + response)) list" where
  "synthesized (Synthesized req r) = [(req, r)]"
| "synthesized a = []"

fun payload_keys :: "action \<Rightarrow> pystr list list" where
  "payload_keys (Emitted ty pl) = [map fst pl]"
| "payload_keys a = []"

text \<open>
  The aggregated report as the spec words it (section 4.6, steps 3b and 3d): the heading
  and output of every step whose execution did not fail, in order, whatever the
  validator said; nothing for a step whose execution failed.
\<close>

fun report_part :: "action \<Rightarrow> pystr list" where
  "report_part (Executed step r) =
     (if res_status r = lit ''failed'' then [] else [section_of step (res_output r)])"
| "report_part a = []"

definition report_of :: "action list \<Rightarrow> pystr list" where
  "report_of as = concat (map report_part as)"

text \<open>
  The effect on the world of one recorded interaction, performed alone: delivering an
  event is one call of the callback, an agent call is its call of the generation client.
\<close>

fun replay :: "'w env \<Rightarrow> action \<Rightarrow> 'w \<Rightarrow> 'w" where
  "replay env (Emitted ty pl) w = event_callback env ty pl w"
| "replay env (Planned t pl) w = snd (planner_execute (co env) t w)"
| "replay env (Executed step r) w = snd (executor_execute (co env) step w)"
| "replay env (Validated d v) w = w"
| "replay env (Synthesized req r) w = snd (co env req w)"

subsection \<open>The events of a run\<close>

text \<open>
  The events the source emits, named: each is the callback invocation one \<^verbatim>\<open>emit\<close>
  call of \<^verbatim>\<open>execute_workflow\<close> makes.
\<close>

definition ev_start :: action where
  "ev_start = Emitted (lit ''status'')
     (payload (VStr (lit ''System Initialized.'')) (lit ''info'') (Some (lit ''start'')))"

definition ev_planner :: action where
  "ev_planner = Emitted (lit ''activate'')
     (payload (VStr (lit ''Analyzing Task Strategy...'')) (lit ''info'') (Some (lit ''planner'')))"

definition ev_strategy :: "nat \<Rightarrow> action" where
  "ev_strategy n = Emitted (lit ''log'')
     (payload (VStr (lit ''Strategy formed with '' @ str_nat n @ lit '' phases.'')) (lit ''planner'') None)"

definition ev_executing :: "pystr \<Rightarrow> action" where
  "ev_executing step = Emitted (lit ''activate'')
     (payload (VStr (lit ''Executing: '' @ step)) (lit ''info'') (Some (lit ''executor'')))"

definition ev_step_failed :: "step_result \<Rightarrow> action" where
  "ev_step_failed r = Emitted (lit ''log'')
     (payload (VStr (warning_sign @ lit '' Step failed: '' @ res_output r)) (lit ''error'') None)"

definition ev_validating :: action where
  "ev_validating = Emitted (lit ''activate'')
     (payload (VStr (lit ''Verifying Data Integrity...'')) (lit ''info'') (Some (lit ''validator'')))"

definition ev_decision :: action where
  "ev_decision = Emitted (lit ''activate'')
     (payload (VStr (lit ''Quality Gate Decision'')) (lit ''info'') (Some (lit ''decision'')))"

definition ev_verified :: "nat \<Rightarrow> step_result \<Rightarrow> action" where
  "ev_verified i r = Emitted (lit ''log'')
     (payload (VStr (check_mark @ lit '' Phase '' @ str_nat (i + 1) @ lit '' Verified (Confidence: ''
                     @ format_percent0 (res_confidence r) @ lit '')''))
        (lit ''success'') None)"

definition ev_warning :: "validation_result \<Rightarrow> action" where
  "ev_warning v = Emitted (lit ''log'')
     (payload (VStr (warning_sign @ lit '' Quality Warning: '' @ feedback v)) (lit ''warning'') None)"

definition ev_end :: action where
  "ev_end = Emitted (lit ''activate'')
     (payload (VStr (lit ''Synthesizing Final Intelligence Report...'')) (lit ''info'') (Some (lit ''end'')))"

definition ev_finish :: "response \<Rightarrow> action" where
  "ev_finish resp = Emitted (lit ''finish'')
     (payload (VDict [(lit ''report'', VStr (resp_text resp))]) (lit ''info'') None)"

definition ev_critical :: "exc \<Rightarrow> action" where
  "ev_critical e = Emitted (lit ''log'')
     (payload (VStr (lit ''Critical System Failure: '' @ str_exc e)) (lit ''error'') None)"

text \<open>The last event of a run, by the outcome of the synthesis call.\<close>

definition ev_last :: "exc + response \<Rightarrow> action" where
  "ev_last r = (case r of Inr resp \<Rightarrow> ev_finish resp | Inl e \<Rightarrow> ev_critical e)"

text \<open>The plan of a run: what the planner returns in the world the first two events leave.\<close>

definition planned_by :: "'w env \<Rightarrow> pystr \<Rightarrow> 'w \<Rightarrow> plan" where
  "planned_by env t w =
     fst (planner_execute (co env) t (replay env ev_planner (replay env ev_start w)))"

subsection \<open>Two environments\<close>

text \<open>
  A world that counts the generation calls, a callback that changes nothing, and a
  client that always raises, or always answers with the same response.
\<close>

definition env_down :: "nat env" where
  "env_down =
     \<lparr>co = (\<lambda>req w. (Inl (Exception (lit ''timeout'')), Suc w)),
      event_callback = (\<lambda>ty pl w. w),
      datetime_now = (\<lambda>w. 1700000000000000),
      time_time = (\<lambda>w. 1700000000)\<rparr>"

definition env_up :: "nat env" where
  "env_up =
     \<lparr>co = (\<lambda>req w. (Inr \<lparr>resp_text = lit ''REPORT'', resp_citations = None\<rparr>, Suc w)),
      event_callback = (\<lambda>ty pl w. w),
      datetime_now = (\<lambda>w. 1700000000000000),
      time_time = (\<lambda>w. 1700000000)\<rparr>"

section \<open>Properties\<close>

subsection \<open>The execution log\<close>

lemma log_event_trimmed:
  "500 \<le> length (execution_log s) \<Longrightarrow>
   execution_log (log_event t e m d s) = py_last 400 (execution_log s) @ [new_entry t e m d]"
  by (simp add: log_event_def)

lemma log_event_untrimmed:
  "length (execution_log s) < 500 \<Longrightarrow>
   execution_log (log_event t e m d s) = execution_log s @ [new_entry t e m d]"
  by (simp add: log_event_def)

lemma log_event_bounded:
  "length (execution_log s) \<le> 500 \<Longrightarrow> length (execution_log (log_event t e m d s)) \<le> 500"
  by (simp add: log_event_def py_last_def Let_def)

lemma log_events_bounded:
  "length (execution_log s) \<le> 500 \<Longrightarrow> length (execution_log (log_events cs s)) \<le> 500"
  by (induction cs s rule: log_events.induct) (simp_all add: log_event_bounded)

lemma log_event_suffix:
  "suffix (execution_log (log_event t e m d s)) (execution_log s @ [new_entry t e m d])"
  by (simp add: log_event_def py_last_def Let_def suffix_drop)

lemma log_events_suffix:
  "suffix (execution_log (log_events cs s)) (execution_log s @ map entry_of cs)"
proof (induction cs s rule: log_events.induct)
  case (1 s)
  show ?case by simp
next
  case (2 t e m d cs s)
  have "suffix (execution_log (log_event t e m d s) @ map entry_of cs)
          ((execution_log s @ [new_entry t e m d]) @ map entry_of cs)"
    using log_event_suffix [of t e m d s] unfolding suffix_def by auto
  with 2 show ?case by (auto intro: suffix_order.trans)
qed

text \<open>
  Claim C7. \<^verbatim>\<open>log_event\<close> keeps the execution log bounded. A call on a log of at least
  500 entries leaves the most recent 400 followed by the new entry, 401 entries in all;
  a call on a shorter log appends the new entry. After any sequence of calls that starts
  from an empty log the log has at most 500 entries, and it is a suffix of the entries
  of the calls, in the order of the calls: entries are only added at the end.
\<close>

theorem log_event_capacity:
  "(500 \<le> length (execution_log s) \<longrightarrow>
      execution_log (log_event t e m d s) = py_last 400 (execution_log s) @ [new_entry t e m d]
      \<and> length (execution_log (log_event t e m d s)) = 401)
   \<and> (length (execution_log s) < 500 \<longrightarrow>
      execution_log (log_event t e m d s) = execution_log s @ [new_entry t e m d])
   \<and> (execution_log s = [] \<longrightarrow>
      length (execution_log (log_events cs s)) \<le> 500
      \<and> suffix (execution_log (log_events cs s)) (map entry_of cs))"
proof (intro conjI impI)
  assume h: "500 \<le> length (execution_log s)"
  show "execution_log (log_event t e m d s) = py_last 400 (execution_log s) @ [new_entry t e m d]"
    using h by (rule log_event_trimmed)
  show "length (execution_log (log_event t e m d s)) = 401"
    using h by (simp add: log_event_trimmed py_last_def)
next
  assume "length (execution_log s) < 500"
  then show "execution_log (log_event t e m d s) = execution_log s @ [new_entry t e m d]"
    by (rule log_event_untrimmed)
next
  assume h: "execution_log s = []"
  show "length (execution_log (log_events cs s)) \<le> 500"
    using h by (simp add: log_events_bounded)
  show "suffix (execution_log (log_events cs s)) (map entry_of cs)"
    using log_events_suffix [of cs s] h by simp
qed

theorem log_event_capacity_witness:
  "length (execution_log (log_event (lit ''t'') (lit ''step'') (lit ''m'') None
      ((new_WorkflowState (lit ''wf_1'') (lit ''task'') PENDING)
         \<lparr>execution_log := replicate 500 (new_entry (lit ''t0'') (lit ''step'') (lit ''m0'') None)\<rparr>))) = 401
   \<and> execution_log (log_event (lit ''t'') (lit ''step'') (lit ''m'') None
        (new_WorkflowState (lit ''wf_1'') (lit ''task'') PENDING)) =
       [new_entry (lit ''t'') (lit ''step'') (lit ''m'') None]
   \<and> length (execution_log (log_events [(lit ''t1'', lit ''a'', lit ''m1'', None), (lit ''t2'', lit ''b'', lit ''m2'', None)]
        (new_WorkflowState (lit ''wf_1'') (lit ''task'') PENDING))) \<le> 500"
proof (intro conjI)
  let ?s0 = "new_WorkflowState (lit ''wf_1'') (lit ''task'') PENDING"
  let ?e0 = "new_entry (lit ''t0'') (lit ''step'') (lit ''m0'') None"
  have full: "500 \<le> length (execution_log (?s0\<lparr>execution_log := replicate 500 ?e0\<rparr>))"
    by simp
  have empty: "execution_log ?s0 = []"
    by (simp add: new_WorkflowState_def)
  show "length (execution_log (log_event (lit ''t'') (lit ''step'') (lit ''m'') None
          (?s0\<lparr>execution_log := replicate 500 ?e0\<rparr>))) = 401"
    using log_event_capacity [of "?s0\<lparr>execution_log := replicate 500 ?e0\<rparr>"] full by blast
  show "execution_log (log_event (lit ''t'') (lit ''step'') (lit ''m'') None ?s0) =
          [new_entry (lit ''t'') (lit ''step'') (lit ''m'') None]"
    using log_event_capacity [of ?s0 "lit ''t''" "lit ''step''" "lit ''m''" None] empty by simp
  show "length (execution_log (log_events [(lit ''t1'', lit ''a'', lit ''m1'', None), (lit ''t2'', lit ''b'', lit ''m2'', None)] ?s0)) \<le> 500"
    using log_event_capacity [of ?s0] empty by blast
qed

subsection \<open>ValidatorAgent\<close>

lemma validator_execute_typed:
  assumes "map_of result (lit ''output'') = Some (VStr out)"
      and "map_of result (lit ''confidence'') = Some (VFloat (Finite c))"
  shows "validator_execute result =
           Inr \<lparr>is_valid = (50 < length out \<and> 6/10 < c), val_confidence = VFloat (Finite c),
                feedback = (if 50 < length out \<and> 6/10 < c then lit ''Content verified successfully.''
                            else lit ''Content too short or lacks citations.'')\<rparr>"
  using assms by (auto simp add: validator_execute_def dict_get_def Let_def)

text \<open>
  Claim C5. \<^verbatim>\<open>ValidatorAgent.execute\<close> is a function of its input alone: the model takes
  the result dict and nothing of the world, as the source makes no external call. On a
  result whose output is a text and whose confidence is a float, it returns
  \<open>is_valid\<close> true exactly when the output has more than 50 characters and the
  confidence is greater than 0.6 (so a length of exactly 50 gives false), it returns the
  confidence it was given, and its feedback is one of two fixed texts, chosen by the verdict.
\<close>

theorem validator_execute_rule:
  assumes "map_of result (lit ''output'') = Some (VStr out)"
      and "map_of result (lit ''confidence'') = Some (VFloat (Finite c))"
  shows "validator_execute result =
           Inr \<lparr>is_valid = (50 < length out \<and> 6/10 < c), val_confidence = VFloat (Finite c),
                feedback = (if 50 < length out \<and> 6/10 < c then lit ''Content verified successfully.''
                            else lit ''Content too short or lacks citations.'')\<rparr>"
  using assms by (rule validator_execute_typed)

theorem validator_execute_rule_witness:
  "validator_execute
     [(lit ''output'', VStr (replicate 50 120)), (lit ''confidence'', VFloat (Finite (9/10)))] =
   Inr \<lparr>is_valid = False, val_confidence = VFloat (Finite (9/10)),
        feedback = lit ''Content too short or lacks citations.''\<rparr>"
  using validator_execute_rule
    [of "[(lit ''output'', VStr (replicate 50 120)), (lit ''confidence'', VFloat (Finite (9/10)))]"
        "replicate 50 120" "9/10"]
  by (simp add: lit_def)

lemma py_gt_float_number: "is_number v \<Longrightarrow> \<exists>b. py_gt_float v x = Inr b"
  by (induction v x rule: py_gt_float.induct) auto

lemma validator_execute_returns:
  assumes "py_len (dict_get result (lit ''output'') (VStr [])) = Inr n"
      and "50 < n \<longrightarrow> is_number (dict_get result (lit ''confidence'') (VFloat (Finite (5/10))))"
  shows "\<exists>v. validator_execute result = Inr v"
proof (cases "50 < n")
  case False
  with assms(1) show ?thesis by (simp add: validator_execute_def Let_def)
next
  case True
  with assms(2) have "is_number (dict_get result (lit ''confidence'') (VFloat (Finite (5/10))))"
    by simp
  from py_gt_float_number [OF this, of "6/10"] obtain b where
    "py_gt_float (dict_get result (lit ''confidence'') (VFloat (Finite (5/10)))) (6/10) = Inr b" ..
  with assms(1) True show ?thesis by (simp add: validator_execute_def Let_def)
qed

lemma validator_execute_confidence:
  "validator_execute result = Inr v \<Longrightarrow>
   val_confidence v = dict_get result (lit ''confidence'') (VFloat (Finite (5/10)))"
  by (auto simp add: validator_execute_def Let_def split: sum.splits if_splits)

lemma validator_execute_missing:
  assumes "validator_execute result = Inr v"
      and "map_of result (lit ''output'') = None \<or> map_of result (lit ''confidence'') = None"
  shows "\<not> is_valid v"
  using assms
  by (auto simp add: validator_execute_def Let_def dict_get_def split: sum.splits if_splits)

lemma validator_execute_no_output:
  "map_of result (lit ''output'') = None \<Longrightarrow> \<exists>v. validator_execute result = Inr v"
  by (rule validator_execute_returns [of result 0]) (simp_all add: dict_get_def)

text \<open>
  Claim C10, as stated, fails: \<^verbatim>\<open>ValidatorAgent.execute\<close> is not total on every input
  mapping. On \<^verbatim>\<open>{"output": None}\<close> the call of \<^verbatim>\<open>len\<close> raises \<^verbatim>\<open>TypeError\<close>, and on
  an output of 60 characters with the confidence \<^verbatim>\<open>"high"\<close> the comparison with 0.6 does.
\<close>

theorem validator_execute_raises:
  "validator_execute [(lit ''output'', VNone)] =
     Inl (TypeError (lit ''object of type '' @ [39] @ lit ''NoneType'' @ [39] @ lit '' has no len()''))
   \<and> validator_execute
       [(lit ''output'', VStr (replicate 60 120)), (lit ''confidence'', VStr (lit ''high''))] =
     Inl (TypeError ([39] @ lit ''>'' @ [39] @ lit '' not supported between instances of ''
       @ [39] @ lit ''str'' @ [39] @ lit '' and '' @ [39] @ lit ''float'' @ [39]))"
  by (simp add: validator_execute_def dict_get_def lit_def)

text \<open>
  Claim C10, amended. \<^verbatim>\<open>ValidatorAgent.execute\<close> returns normally on every mapping
  whose output (the empty text when the key is missing) is a string, a list or a dict and
  whose confidence (0.5 when the key is missing) is a bool, an int or a float, or is not
  compared because the output has at most 50 elements; in particular it returns whenever
  the output key is missing. On other mappings it may raise. Whenever it returns, the
  confidence returned is the input's confidence (or the default 0.5), and \<open>is_valid\<close>
  is false when either key is missing.
\<close>

theorem validator_execute_total_on:
  "((\<exists>n. py_len (dict_get result (lit ''output'') (VStr [])) = Inr n \<and>
         (50 < n \<longrightarrow> is_number (dict_get result (lit ''confidence'') (VFloat (Finite (5/10))))))
      \<longrightarrow> (\<exists>v. validator_execute result = Inr v))
   \<and> (map_of result (lit ''output'') = None \<longrightarrow> (\<exists>v. validator_execute result = Inr v))
   \<and> (\<forall>v. validator_execute result = Inr v \<longrightarrow>
         val_confidence v = dict_get result (lit ''confidence'') (VFloat (Finite (5/10)))
         \<and> (map_of result (lit ''output'') = None \<or> map_of result (lit ''confidence'') = None
              \<longrightarrow> \<not> is_valid v))"
  using validator_execute_returns [of result] validator_execute_no_output [of result]
    validator_execute_confidence [of result] validator_execute_missing [of result]
  by blast

theorem validator_execute_total_on_witness:
  "(\<exists>v. validator_execute [(lit ''output'', VStr (replicate 60 120))] = Inr v
        \<and> val_confidence v = VFloat (Finite (5/10)) \<and> \<not> is_valid v)
   \<and> (\<exists>v. validator_execute [(lit ''confidence'', VFloat (Finite (9/10)))] = Inr v
        \<and> val_confidence v = VFloat (Finite (9/10)) \<and> \<not> is_valid v)"
proof (intro conjI)
  let ?r1 = "[(lit ''output'', VStr (replicate 60 120))]"
  let ?r2 = "[(lit ''confidence'', VFloat (Finite (9/10)))]"
  have sized: "py_len (dict_get ?r1 (lit ''output'') (VStr [])) = Inr 60"
    by (simp add: dict_get_def)
  have number: "is_number (dict_get ?r1 (lit ''confidence'') (VFloat (Finite (5/10))))"
    by (simp add: dict_get_def lit_def)
  have no_conf: "map_of ?r1 (lit ''confidence'') = None"
    by (simp add: lit_def)
  have dflt: "dict_get ?r1 (lit ''confidence'') (VFloat (Finite (5/10))) = VFloat (Finite (5/10))"
    by (simp add: dict_get_def lit_def)
  from validator_execute_total_on [of ?r1] sized number
  obtain v where v: "validator_execute ?r1 = Inr v" by blast
  with validator_execute_total_on [of ?r1] no_conf dflt
  have "val_confidence v = VFloat (Finite (5/10)) \<and> \<not> is_valid v" by metis
  with v show "\<exists>v. validator_execute ?r1 = Inr v
        \<and> val_confidence v = VFloat (Finite (5/10)) \<and> \<not> is_valid v" by blast
  have no_out: "map_of ?r2 (lit ''output'') = None"
    by (simp add: lit_def)
  have given: "dict_get ?r2 (lit ''confidence'') (VFloat (Finite (5/10))) = VFloat (Finite (9/10))"
    by (simp add: dict_get_def)
  from validator_execute_total_on [of ?r2] no_out
  obtain u where u: "validator_execute ?r2 = Inr u" by blast
  with validator_execute_total_on [of ?r2] no_out given
  have "val_confidence u = VFloat (Finite (9/10)) \<and> \<not> is_valid u" by metis
  with u show "\<exists>v. validator_execute ?r2 = Inr v
        \<and> val_confidence v = VFloat (Finite (9/10)) \<and> \<not> is_valid v" by blast
qed

subsection \<open>PlannerAgent\<close>

text \<open>
  Claim C6. Whenever the planner's generation call raises, \<^verbatim>\<open>PlannerAgent.execute\<close>
  returns the fixed plan of three steps with complexity "medium". The model of the
  function has no raising branch at all, the bare \<^verbatim>\<open>except:\<close> enclosing every
  statement that can raise, so the caller observes no exception.
\<close>

theorem planner_execute_fallback:
  assumes "fst (chat (planner_request t) w) = Inl e"
  shows "fst (planner_execute chat t w) =
           \<lparr>steps = [lit ''Research the topic overview'', lit ''Analyze key trends and data'',
                     lit ''Synthesize findings''],
            complexity = lit ''medium'', output_type = lit ''plan''\<rparr>"
  using assms
  by (auto simp add: planner_execute_def fallback_plan_def split: prod.splits sum.splits)

theorem planner_execute_fallback_witness:
  "fst (planner_execute (\<lambda>r w. (Inl (Exception (lit ''timeout'')), Suc w)) (lit ''Summarize AI trends'') (0::nat)) =
     \<lparr>steps = [lit ''Research the topic overview'', lit ''Analyze key trends and data'',
               lit ''Synthesize findings''],
      complexity = lit ''medium'', output_type = lit ''plan''\<rparr>"
  using planner_execute_fallback
    [of "\<lambda>r w. (Inl (Exception (lit ''timeout'')), Suc w)" "lit ''Summarize AI trends''" "0::nat"
        "Exception (lit ''timeout'')"]
  by simp

subsection \<open>ExecutorAgent\<close>





lemma dict_of_failed_result:
  "dict_of_result (failed_result e) =
     [(lit ''status'', VStr (lit ''failed'')), (lit ''output'', VStr (str_exc e)),
      (lit ''confidence'', VFloat (Finite 0))]"
  by (simp add: dict_of_result_def failed_result_def)




subsection \<open>Contexts and events\<close>

lemma calls_emit [simp]:
  "calls (emit env ty msg role node c) = calls c @ [Emitted ty (payload msg role node)]"
  by (simp add: emit_def invoked_def)

lemma world_emit [simp]:
  "world (emit env ty msg role node c) = event_callback env ty (payload msg role node) (world c)"
  by (simp add: emit_def invoked_def)

lemma calls_invoked [simp]: "calls (invoked a w c) = calls c @ [a]"
  by (simp add: invoked_def)

lemma world_invoked [simp]: "world (invoked a w c) = w"
  by (simp add: invoked_def)

lemma map_of_payload_node [simp]:
  "map_of (payload msg role node) (lit ''node'') = Some (case node of None \<Rightarrow> VNone | Some n \<Rightarrow> VStr n)"
  by (simp add: payload_def lit_def)

lemma map_fst_payload [simp]:
  "map fst (payload msg role node) = [lit ''msg'', lit ''role'', lit ''node'']"
  by (simp add: payload_def)

lemma lit_types_distinct [simp]:
  "lit ''log'' \<noteq> lit ''activate''" "lit ''status'' \<noteq> lit ''activate''"
  "lit ''finish'' \<noteq> lit ''activate''"
  by (simp_all add: lit_def)

lemma lit_nodes_distinct [simp]:
  "lit ''executor'' \<noteq> lit ''decision''" "lit ''validator'' \<noteq> lit ''decision''"
  "lit ''validator'' \<noteq> lit ''executor''" "lit ''decision'' \<noteq> lit ''executor''"
  "lit ''planner'' \<noteq> lit ''executor''" "lit ''planner'' \<noteq> lit ''decision''"
  "lit ''start'' \<noteq> lit ''executor''" "lit ''start'' \<noteq> lit ''decision''"
  "lit ''end'' \<noteq> lit ''executor''" "lit ''end'' \<noteq> lit ''decision''"
  by (simp_all add: lit_def)

lemma validator_execute_result_dict:
  "validator_execute (dict_of_result r) =
     Inr \<lparr>is_valid = (50 < length (res_output r) \<and> 6/10 < res_confidence r),
          val_confidence = VFloat (Finite (res_confidence r)),
          feedback = (if 50 < length (res_output r) \<and> 6/10 < res_confidence r
                      then lit ''Content verified successfully.''
                      else lit ''Content too short or lacks citations.'')\<rparr>"
  by (rule validator_execute_typed) (simp_all add: dict_of_result_def lit_def)

subsection \<open>One iteration of the loop\<close>

lemma do_step_failed:
  assumes "executor_execute (co env) step (replay env (ev_executing step) (world c)) = (r, w2)"
      and "res_status r = lit ''failed''"
  shows "fst (do_step env i step acc c) = Inr acc"
    and "calls (snd (do_step env i step acc c)) =
           calls c @ [ev_executing step, Executed step r, ev_step_failed r]"
    and "world (snd (do_step env i step acc c)) = replay env (ev_step_failed r) w2"
  using assms by (simp_all add: do_step_def Let_def ev_executing_def ev_step_failed_def)

lemma do_step_passed:
  assumes "executor_execute (co env) step (replay env (ev_executing step) (world c)) = (r, w2)"
      and "res_status r \<noteq> lit ''failed''"
      and "validator_execute (dict_of_result r) = Inr v"
  shows "fst (do_step env i step acc c) = Inr (acc @ [section_of step (res_output r)])"
    and "calls (snd (do_step env i step acc c)) =
           calls c @ [ev_executing step, Executed step r, ev_validating,
                      Validated (dict_of_result r) (Inr v), ev_decision,
                      (if is_valid v then ev_verified i r else ev_warning v)]"
    and "world (snd (do_step env i step acc c)) =
           replay env (if is_valid v then ev_verified i r else ev_warning v)
             (replay env ev_decision (replay env ev_validating w2))"
  using assms
  by (simp_all add: do_step_def Let_def ev_executing_def ev_validating_def ev_decision_def
        ev_verified_def ev_warning_def)

lemma do_step_summary:
  obtains new where
    "fst (do_step env i step acc c) = Inr (acc @ report_of new)"
    "calls (snd (do_step env i step acc c)) = calls c @ new"
    "world (snd (do_step env i step acc c)) = fold (replay env) new (world c)"
    "length (filter (is_activate (lit ''executor'')) new) = 1"
    "length (filter (is_activate (lit ''decision'')) new) + length (filter is_failed_execution new) = 1"
    "concat (map planned new) = []"
    "concat (map synthesized new) = []"
    "set (concat (map payload_keys new)) \<subseteq> {[lit ''msg'', lit ''role'', lit ''node'']}"
proof -
  obtain r w2 where ex:
    "executor_execute (co env) step (replay env (ev_executing step) (world c)) = (r, w2)"
    by (cases "executor_execute (co env) step (replay env (ev_executing step) (world c))")
  have ex': "snd (executor_execute (co env) step
      (event_callback env (lit ''activate'')
         (payload (VStr (lit ''Executing: '' @ step)) (lit ''info'') (Some (lit ''executor''))) (world c))) = w2"
    using ex by (simp add: ev_executing_def)
  show thesis
  proof (cases "res_status r = lit ''failed''")
    case True
    note f = do_step_failed [OF ex True, of i acc]
    show thesis
      by (rule that [of "[ev_executing step, Executed step r, ev_step_failed r]"])
         (simp_all add: f report_of_def True ex' ev_executing_def ev_step_failed_def)
  next
    case False
    obtain v where v: "validator_execute (dict_of_result r) = Inr v"
      by (simp add: validator_execute_result_dict)
    note p = do_step_passed [OF ex False v, of i acc]
    show thesis
      by (rule that [of "[ev_executing step, Executed step r, ev_validating,
                      Validated (dict_of_result r) (Inr v), ev_decision,
                      (if is_valid v then ev_verified i r else ev_warning v)]"])
         (simp_all add: p report_of_def False ex' ev_executing_def ev_validating_def ev_decision_def
            ev_verified_def ev_warning_def)
  qed
qed

subsection \<open>The loop\<close>

lemma run_steps_summary:
  "\<exists>new.
     fst (run_steps env i ss acc c) = Inr (acc @ report_of new)
     \<and> calls (snd (run_steps env i ss acc c)) = calls c @ new
     \<and> world (snd (run_steps env i ss acc c)) = fold (replay env) new (world c)
     \<and> length (filter (is_activate (lit ''executor'')) new) = length ss
     \<and> length (filter (is_activate (lit ''decision'')) new) + length (filter is_failed_execution new) = length ss
     \<and> concat (map planned new) = []
     \<and> concat (map synthesized new) = []
     \<and> set (concat (map payload_keys new)) \<subseteq> {[lit ''msg'', lit ''role'', lit ''node'']}"
proof (induction ss arbitrary: i acc c)
  case Nil
  show ?case by (rule exI [of _ "[]"]) (simp add: report_of_def)
next
  case (Cons step rest)
  obtain n1 where n1:
    "fst (do_step env i step acc c) = Inr (acc @ report_of n1)"
    "calls (snd (do_step env i step acc c)) = calls c @ n1"
    "world (snd (do_step env i step acc c)) = fold (replay env) n1 (world c)"
    "length (filter (is_activate (lit ''executor'')) n1) = 1"
    "length (filter (is_activate (lit ''decision'')) n1) + length (filter is_failed_execution n1) = 1"
    "concat (map planned n1) = []"
    "concat (map synthesized n1) = []"
    "set (concat (map payload_keys n1)) \<subseteq> {[lit ''msg'', lit ''role'', lit ''node'']}"
    by (rule do_step_summary)
  let ?c1 = "snd (do_step env i step acc c)"
  let ?acc1 = "acc @ report_of n1"
  have unfold: "run_steps env i (step # rest) acc c = run_steps env (Suc i) rest ?acc1 ?c1"
    using n1(1) by (cases "do_step env i step acc c") simp
  from Cons.IH [of "Suc i" ?acc1 ?c1] obtain n2 where n2:
    "fst (run_steps env (Suc i) rest ?acc1 ?c1) = Inr (?acc1 @ report_of n2)"
    "calls (snd (run_steps env (Suc i) rest ?acc1 ?c1)) = calls ?c1 @ n2"
    "world (snd (run_steps env (Suc i) rest ?acc1 ?c1)) = fold (replay env) n2 (world ?c1)"
    "length (filter (is_activate (lit ''executor'')) n2) = length rest"
    "length (filter (is_activate (lit ''decision'')) n2) + length (filter is_failed_execution n2) = length rest"
    "concat (map planned n2) = []"
    "concat (map synthesized n2) = []"
    "set (concat (map payload_keys n2)) \<subseteq> {[lit ''msg'', lit ''role'', lit ''node'']}"
    by blast
  show ?case
  proof (rule exI [of _ "n1 @ n2"], intro conjI)
    show "fst (run_steps env i (step # rest) acc c) = Inr (acc @ report_of (n1 @ n2))"
      unfolding unfold using n2(1) by (simp add: report_of_def)
    show "calls (snd (run_steps env i (step # rest) acc c)) = calls c @ n1 @ n2"
      unfolding unfold using n2(2) n1(2) by simp
    show "world (snd (run_steps env i (step # rest) acc c)) = fold (replay env) (n1 @ n2) (world c)"
      unfolding unfold using n2(3) n1(3) by simp
    show "length (filter (is_activate (lit ''executor'')) (n1 @ n2)) = length (step # rest)"
      using n1(4) n2(4) by simp
    show "length (filter (is_activate (lit ''decision'')) (n1 @ n2))
            + length (filter is_failed_execution (n1 @ n2)) = length (step # rest)"
      using n1(5) n2(5) by simp
    show "concat (map planned (n1 @ n2)) = []" using n1(6) n2(6) by simp
    show "concat (map synthesized (n1 @ n2)) = []" using n1(7) n2(7) by simp
    show "set (concat (map payload_keys (n1 @ n2))) \<subseteq> {[lit ''msg'', lit ''role'', lit ''node'']}"
      using n1(8) n2(8) by simp
  qed
qed

subsection \<open>The whole run\<close>

lemma try_body_summary:
  "\<exists>new r.
     fst (try_body env t s \<lparr>world = w, calls = []\<rparr>) = (case r of Inl e \<Rightarrow> Inl e | Inr resp \<Rightarrow> Inr ())
     \<and> fst (snd (try_body env t s \<lparr>world = w, calls = []\<rparr>)) =
         (case r of
            Inl e \<Rightarrow> s\<lparr>start_time := Some (datetime_now env (replay env ev_start w)),
                        total_steps := int (length (steps (planned_by env t w)))\<rparr>
          | Inr resp \<Rightarrow> s\<lparr>start_time := Some (datetime_now env (replay env ev_start w)),
                           total_steps := int (length (steps (planned_by env t w))),
                           status := COMPLETED\<rparr>)
     \<and> calls (snd (snd (try_body env t s \<lparr>world = w, calls = []\<rparr>))) =
         [ev_start, ev_planner, Planned t (planned_by env t w),
          ev_strategy (length (steps (planned_by env t w)))]
         @ new @ [ev_end, Synthesized (final_request t (report_of new)) r]
         @ (case r of Inl e \<Rightarrow> [] | Inr resp \<Rightarrow> [ev_finish resp])
     \<and> world (snd (snd (try_body env t s \<lparr>world = w, calls = []\<rparr>))) =
         fold (replay env) (calls (snd (snd (try_body env t s \<lparr>world = w, calls = []\<rparr>)))) w
     \<and> (\<exists>w6. fst (co env (final_request t (report_of new)) w6) = r)
     \<and> length (filter (is_activate (lit ''executor'')) new) = length (steps (planned_by env t w))
     \<and> length (filter (is_activate (lit ''decision'')) new) + length (filter is_failed_execution new)
         = length (steps (planned_by env t w))
     \<and> concat (map planned new) = []
     \<and> concat (map synthesized new) = []
     \<and> set (concat (map payload_keys new)) \<subseteq> {[lit ''msg'', lit ''role'', lit ''node'']}"
proof -
  let ?c0 = "\<lparr>world = w, calls = []\<rparr>"
  let ?w2 = "replay env ev_planner (replay env ev_start w)"
  let ?pl = "planned_by env t w"
  obtain pl' w3 where pe: "planner_execute (co env) t ?w2 = (pl', w3)"
    by (cases "planner_execute (co env) t ?w2")
  have pl': "pl' = ?pl" using pe by (simp add: planned_by_def)
  let ?c4 = "\<lparr>world = replay env (ev_strategy (length (steps ?pl))) w3,
             calls = [ev_start, ev_planner, Planned t ?pl, ev_strategy (length (steps ?pl))]\<rparr>"
  from run_steps_summary [of env 0 "steps ?pl" "[]" ?c4] obtain new where new:
    "fst (run_steps env 0 (steps ?pl) [] ?c4) = Inr ([] @ report_of new)"
    "calls (snd (run_steps env 0 (steps ?pl) [] ?c4)) = calls ?c4 @ new"
    "world (snd (run_steps env 0 (steps ?pl) [] ?c4)) = fold (replay env) new (world ?c4)"
    "length (filter (is_activate (lit ''executor'')) new) = length (steps ?pl)"
    "length (filter (is_activate (lit ''decision'')) new) + length (filter is_failed_execution new) = length (steps ?pl)"
    "concat (map planned new) = []"
    "concat (map synthesized new) = []"
    "set (concat (map payload_keys new)) \<subseteq> {[lit ''msg'', lit ''role'', lit ''node'']}"
    by blast
  obtain c5 where rs: "run_steps env 0 (steps ?pl) [] ?c4 = (Inr (report_of new), c5)"
    using new(1) by (cases "run_steps env 0 (steps ?pl) [] ?c4") simp
  have c5: "calls c5 = calls ?c4 @ new" "world c5 = fold (replay env) new (world ?c4)"
    using new(2,3) rs by simp_all
  obtain r w7 where syn: "co env (final_request t (report_of new)) (replay env ev_end (world c5)) = (r, w7)"
    by (cases "co env (final_request t (report_of new)) (replay env ev_end (world c5))")
  have c4: "emit env (lit ''log'')
       (VStr (lit ''Strategy formed with '' @ str_nat (length (steps ?pl)) @ lit '' phases.''))
       (lit ''planner'') None
       (invoked (Planned t ?pl) w3
          (emit env (lit ''activate'') (VStr (lit ''Analyzing Task Strategy...'')) (lit ''info'')
             (Some (lit ''planner''))
             (emit env (lit ''status'') (VStr (lit ''System Initialized.'')) (lit ''info'')
                (Some (lit ''start'')) ?c0))) = ?c4"
    by (simp add: emit_def invoked_def ev_start_def ev_planner_def ev_strategy_def)
  have pe': "planner_execute (co env) t
       (event_callback env (lit ''activate'')
          (payload (VStr (lit ''Analyzing Task Strategy...'')) (lit ''info'') (Some (lit ''planner'')))
          (event_callback env (lit ''status'')
             (payload (VStr (lit ''System Initialized.'')) (lit ''info'') (Some (lit ''start''))) w)) =
       (?pl, w3)"
    using pe pl' by (simp add: ev_start_def ev_planner_def)
  have syn': "co env (final_request t (report_of new))
       (event_callback env (lit ''activate'')
          (payload (VStr (lit ''Synthesizing Final Intelligence Report...'')) (lit ''info'')
             (Some (lit ''end''))) (world c5)) = (r, w7)"
    using syn by (simp add: ev_end_def)
  have st: "replay env ev_start w =
      event_callback env (lit ''status'')
        (payload (VStr (lit ''System Initialized.'')) (lit ''info'') (Some (lit ''start''))) w"
    by (simp add: ev_start_def)
  let ?c6 = "emit env (lit ''activate'') (VStr (lit ''Synthesizing Final Intelligence Report...''))
               (lit ''info'') (Some (lit ''end'')) c5"
  let ?c7 = "invoked (Synthesized (final_request t (report_of new)) r) w7 ?c6"
  have tb: "try_body env t s ?c0 =
      (case r of Inl e \<Rightarrow> Inl e | Inr resp \<Rightarrow> Inr (),
       (case r of
          Inl e \<Rightarrow> s\<lparr>start_time := Some (datetime_now env (replay env ev_start w)),
                      total_steps := int (length (steps ?pl))\<rparr>
        | Inr resp \<Rightarrow> s\<lparr>start_time := Some (datetime_now env (replay env ev_start w)),
                         total_steps := int (length (steps ?pl)), status := COMPLETED\<rparr>),
       (case r of
          Inl e \<Rightarrow> ?c7
        | Inr resp \<Rightarrow>
            emit env (lit ''finish'') (VDict [(lit ''report'', VStr (resp_text resp))])
              (lit ''info'') None ?c7))"
    by (cases r) (simp_all add: try_body_def Let_def pe' c4 rs syn' st)
  show ?thesis
  proof (rule exI [of _ new], rule exI [of _ r], intro conjI)
    show "fst (try_body env t s ?c0) = (case r of Inl e \<Rightarrow> Inl e | Inr resp \<Rightarrow> Inr ())"
      by (simp add: tb)
    show "fst (snd (try_body env t s ?c0)) =
         (case r of
            Inl e \<Rightarrow> s\<lparr>start_time := Some (datetime_now env (replay env ev_start w)),
                        total_steps := int (length (steps ?pl))\<rparr>
          | Inr resp \<Rightarrow> s\<lparr>start_time := Some (datetime_now env (replay env ev_start w)),
                           total_steps := int (length (steps ?pl)),
                           status := COMPLETED\<rparr>)"
      by (simp add: tb)
    show calls: "calls (snd (snd (try_body env t s ?c0))) =
         [ev_start, ev_planner, Planned t ?pl, ev_strategy (length (steps ?pl))]
         @ new @ [ev_end, Synthesized (final_request t (report_of new)) r]
         @ (case r of Inl e \<Rightarrow> [] | Inr resp \<Rightarrow> [ev_finish resp])"
      by (cases r) (simp_all add: tb c5 ev_end_def ev_finish_def)
    show "world (snd (snd (try_body env t s ?c0))) =
         fold (replay env) (calls (snd (snd (try_body env t s ?c0)))) w"
      unfolding calls using pe pl' syn
      by (cases r) (simp_all add: tb c5 ev_finish_def)
    show "\<exists>w6. fst (co env (final_request t (report_of new)) w6) = r"
      using syn by (metis fst_conv)
  qed (fact new)+
qed

lemma execute_workflow_summary:
  "\<exists>new r.
     calls (snd (execute_workflow env t w)) =
       [ev_start, ev_planner, Planned t (planned_by env t w),
        ev_strategy (length (steps (planned_by env t w)))]
       @ new @ [ev_end, Synthesized (final_request t (report_of new)) r, ev_last r]
     \<and> fst (execute_workflow env t w) =
       (new_WorkflowState (lit ''wf_'' @ str_int (py_int (time_time env w))) t PENDING)
         \<lparr>start_time := Some (datetime_now env (replay env ev_start w)),
          total_steps := int (length (steps (planned_by env t w))),
          status := (case r of Inl e \<Rightarrow> FAILED | Inr resp \<Rightarrow> COMPLETED)\<rparr>
     \<and> world (snd (execute_workflow env t w)) =
         fold (replay env) (calls (snd (execute_workflow env t w))) w
     \<and> (\<exists>w6. fst (co env (final_request t (report_of new)) w6) = r)
     \<and> length (filter (is_activate (lit ''executor'')) new) = length (steps (planned_by env t w))
     \<and> length (filter (is_activate (lit ''decision'')) new) + length (filter is_failed_execution new)
         = length (steps (planned_by env t w))
     \<and> concat (map planned new) = []
     \<and> concat (map synthesized new) = []
     \<and> set (concat (map payload_keys new)) \<subseteq> {[lit ''msg'', lit ''role'', lit ''node'']}"
proof -
  let ?c0 = "\<lparr>world = w, calls = []\<rparr>"
  let ?s0 = "new_WorkflowState (lit ''wf_'' @ str_int (py_int (time_time env w))) t PENDING"
  let ?tb = "try_body env t ?s0 ?c0"
  from try_body_summary [of env t ?s0 w] obtain new r where tb:
    "fst ?tb = (case r of Inl e \<Rightarrow> Inl e | Inr resp \<Rightarrow> Inr ())"
    "fst (snd ?tb) =
         (case r of
            Inl e \<Rightarrow> ?s0\<lparr>start_time := Some (datetime_now env (replay env ev_start w)),
                        total_steps := int (length (steps (planned_by env t w)))\<rparr>
          | Inr resp \<Rightarrow> ?s0\<lparr>start_time := Some (datetime_now env (replay env ev_start w)),
                           total_steps := int (length (steps (planned_by env t w))),
                           status := COMPLETED\<rparr>)"
    "calls (snd (snd ?tb)) =
         [ev_start, ev_planner, Planned t (planned_by env t w),
          ev_strategy (length (steps (planned_by env t w)))]
         @ new @ [ev_end, Synthesized (final_request t (report_of new)) r]
         @ (case r of Inl e \<Rightarrow> [] | Inr resp \<Rightarrow> [ev_finish resp])"
    "world (snd (snd ?tb)) = fold (replay env) (calls (snd (snd ?tb))) w"
    and rest:
    "\<exists>w6. fst (co env (final_request t (report_of new)) w6) = r"
    "length (filter (is_activate (lit ''executor'')) new) = length (steps (planned_by env t w))"
    "length (filter (is_activate (lit ''decision'')) new) + length (filter is_failed_execution new)
         = length (steps (planned_by env t w))"
    "concat (map planned new) = []"
    "concat (map synthesized new) = []"
    "set (concat (map payload_keys new)) \<subseteq> {[lit ''msg'', lit ''role'', lit ''node'']}"
    by blast
  obtain x s' c' where tbs: "?tb = (x, s', c')"
    by (cases ?tb)
  have parts: "x = (case r of Inl e \<Rightarrow> Inl e | Inr resp \<Rightarrow> Inr ())"
    "s' = (case r of
            Inl e \<Rightarrow> ?s0\<lparr>start_time := Some (datetime_now env (replay env ev_start w)),
                        total_steps := int (length (steps (planned_by env t w)))\<rparr>
          | Inr resp \<Rightarrow> ?s0\<lparr>start_time := Some (datetime_now env (replay env ev_start w)),
                           total_steps := int (length (steps (planned_by env t w))),
                           status := COMPLETED\<rparr>)"
    "calls c' =
         [ev_start, ev_planner, Planned t (planned_by env t w),
          ev_strategy (length (steps (planned_by env t w)))]
         @ new @ [ev_end, Synthesized (final_request t (report_of new)) r]
         @ (case r of Inl e \<Rightarrow> [] | Inr resp \<Rightarrow> [ev_finish resp])"
    "world c' = fold (replay env) (calls c') w"
    using tb tbs by simp_all
  have ew: "execute_workflow env t w =
      (case x of Inr u \<Rightarrow> (s', c')
       | Inl e \<Rightarrow> (s'\<lparr>status := FAILED\<rparr>,
           emit env (lit ''log'') (VStr (lit ''Critical System Failure: '' @ str_exc e)) (lit ''error'') None c'))"
    by (simp add: execute_workflow_def Let_def tbs split: sum.splits)
  show ?thesis
  proof (rule exI [of _ new], rule exI [of _ r], intro conjI)
    show calls: "calls (snd (execute_workflow env t w)) =
       [ev_start, ev_planner, Planned t (planned_by env t w),
        ev_strategy (length (steps (planned_by env t w)))]
       @ new @ [ev_end, Synthesized (final_request t (report_of new)) r, ev_last r]"
      by (cases r) (simp_all add: ew parts ev_last_def ev_critical_def)
    show "fst (execute_workflow env t w) =
       ?s0\<lparr>start_time := Some (datetime_now env (replay env ev_start w)),
          total_steps := int (length (steps (planned_by env t w))),
          status := (case r of Inl e \<Rightarrow> FAILED | Inr resp \<Rightarrow> COMPLETED)\<rparr>"
      by (cases r) (simp_all add: ew parts)
    show "world (snd (execute_workflow env t w)) =
         fold (replay env) (calls (snd (execute_workflow env t w))) w"
      unfolding calls by (cases r) (simp_all add: ew parts ev_last_def ev_critical_def)
  qed (fact rest)+
qed

lemma head_counts [simp]:
  "\<not> is_activate (lit ''executor'') ev_start" "\<not> is_activate (lit ''decision'') ev_start"
  "\<not> is_activate (lit ''executor'') ev_planner" "\<not> is_activate (lit ''decision'') ev_planner"
  "\<not> is_activate (lit ''executor'') (ev_strategy n)" "\<not> is_activate (lit ''decision'') (ev_strategy n)"
  "\<not> is_activate (lit ''executor'') ev_end" "\<not> is_activate (lit ''decision'') ev_end"
  "\<not> is_activate (lit ''executor'') (ev_last r)" "\<not> is_activate (lit ''decision'') (ev_last r)"
  by (simp_all add: ev_start_def ev_planner_def ev_strategy_def ev_end_def ev_last_def
        ev_finish_def ev_critical_def split: sum.splits)

lemma head_parts [simp]:
  "planned ev_start = []" "planned ev_planner = []" "planned (ev_strategy n) = []"
  "planned ev_end = []" "planned (ev_last r) = []"
  "synthesized ev_start = []" "synthesized ev_planner = []" "synthesized (ev_strategy n) = []"
  "synthesized ev_end = []" "synthesized (ev_last r) = []"
  "report_part ev_start = []" "report_part ev_planner = []" "report_part (ev_strategy n) = []"
  "report_part ev_end = []" "report_part (ev_last r) = []"
  "\<not> is_failed_execution ev_start" "\<not> is_failed_execution ev_planner"
  "\<not> is_failed_execution (ev_strategy n)" "\<not> is_failed_execution ev_end"
  "\<not> is_failed_execution (ev_last r)"
  by (simp_all add: ev_start_def ev_planner_def ev_strategy_def ev_end_def ev_last_def
        ev_finish_def ev_critical_def split: sum.splits)

lemma head_keys [simp]:
  "payload_keys ev_start = [[lit ''msg'', lit ''role'', lit ''node'']]"
  "payload_keys ev_planner = [[lit ''msg'', lit ''role'', lit ''node'']]"
  "payload_keys (ev_strategy n) = [[lit ''msg'', lit ''role'', lit ''node'']]"
  "payload_keys ev_end = [[lit ''msg'', lit ''role'', lit ''node'']]"
  "payload_keys (ev_last r) = [[lit ''msg'', lit ''role'', lit ''node'']]"
  by (simp_all add: ev_start_def ev_planner_def ev_strategy_def ev_end_def ev_last_def
        ev_finish_def ev_critical_def split: sum.splits)

lemma run_counts:
  "concat (map planned (calls (snd (execute_workflow env t w)))) = [(t, planned_by env t w)]
   \<and> total_steps (fst (execute_workflow env t w)) = int (length (steps (planned_by env t w)))
   \<and> length (filter (is_activate (lit ''executor'')) (calls (snd (execute_workflow env t w))))
       = length (steps (planned_by env t w))
   \<and> length (filter (is_activate (lit ''decision'')) (calls (snd (execute_workflow env t w))))
       + length (filter is_failed_execution (calls (snd (execute_workflow env t w))))
       = length (steps (planned_by env t w))
   \<and> world (snd (execute_workflow env t w)) =
       fold (replay env) (calls (snd (execute_workflow env t w))) w"
proof -
  from execute_workflow_summary [of env t w] obtain new r where s:
    "calls (snd (execute_workflow env t w)) =
       [ev_start, ev_planner, Planned t (planned_by env t w),
        ev_strategy (length (steps (planned_by env t w)))]
       @ new @ [ev_end, Synthesized (final_request t (report_of new)) r, ev_last r]"
    "fst (execute_workflow env t w) =
       (new_WorkflowState (lit ''wf_'' @ str_int (py_int (time_time env w))) t PENDING)
         \<lparr>start_time := Some (datetime_now env (replay env ev_start w)),
          total_steps := int (length (steps (planned_by env t w))),
          status := (case r of Inl e \<Rightarrow> FAILED | Inr resp \<Rightarrow> COMPLETED)\<rparr>"
    "world (snd (execute_workflow env t w)) =
         fold (replay env) (calls (snd (execute_workflow env t w))) w"
    "length (filter (is_activate (lit ''executor'')) new) = length (steps (planned_by env t w))"
    "length (filter (is_activate (lit ''decision'')) new) + length (filter is_failed_execution new)
         = length (steps (planned_by env t w))"
    "concat (map planned new) = []"
    by blast
  show ?thesis
    using s(3,4,5,6) by (simp add: s(1) s(2))
qed

lemma run_synthesis:
  "\<exists>r. concat (map synthesized (calls (snd (execute_workflow env t w)))) =
          [(final_request t (report_of (calls (snd (execute_workflow env t w)))), r)]
       \<and> (\<exists>w6. fst (co env (final_request t (report_of (calls (snd (execute_workflow env t w))))) w6) = r)
       \<and> status (fst (execute_workflow env t w)) = (case r of Inl e \<Rightarrow> FAILED | Inr resp \<Rightarrow> COMPLETED)
       \<and> last (calls (snd (execute_workflow env t w))) = ev_last r"
proof -
  from execute_workflow_summary [of env t w] obtain new r where s:
    "calls (snd (execute_workflow env t w)) =
       [ev_start, ev_planner, Planned t (planned_by env t w),
        ev_strategy (length (steps (planned_by env t w)))]
       @ new @ [ev_end, Synthesized (final_request t (report_of new)) r, ev_last r]"
    "fst (execute_workflow env t w) =
       (new_WorkflowState (lit ''wf_'' @ str_int (py_int (time_time env w))) t PENDING)
         \<lparr>start_time := Some (datetime_now env (replay env ev_start w)),
          total_steps := int (length (steps (planned_by env t w))),
          status := (case r of Inl e \<Rightarrow> FAILED | Inr resp \<Rightarrow> COMPLETED)\<rparr>"
    "\<exists>w6. fst (co env (final_request t (report_of new)) w6) = r"
    "concat (map synthesized new) = []"
    by blast
  have rep: "report_of (calls (snd (execute_workflow env t w))) = report_of new"
    by (simp add: s(1) report_of_def)
  show ?thesis
    by (rule exI [of _ r]) (use s(3,4) in \<open>simp add: rep s(2)\<close>, simp add: s(1))
qed

lemma run_times:
  "start_time (fst (execute_workflow env t w)) = Some (datetime_now env (replay env ev_start w))
   \<and> end_time (fst (execute_workflow env t w)) = None"
  using execute_workflow_summary [of env t w]
  by (elim exE conjE) (simp add: new_WorkflowState_def)

lemma run_payload_keys:
  "set (concat (map payload_keys (calls (snd (execute_workflow env t w)))))
     \<subseteq> {[lit ''msg'', lit ''role'', lit ''node'']}"
proof -
  from execute_workflow_summary [of env t w] obtain new r where s:
    "calls (snd (execute_workflow env t w)) =
       [ev_start, ev_planner, Planned t (planned_by env t w),
        ev_strategy (length (steps (planned_by env t w)))]
       @ new @ [ev_end, Synthesized (final_request t (report_of new)) r, ev_last r]"
    "set (concat (map payload_keys new)) \<subseteq> {[lit ''msg'', lit ''role'', lit ''node'']}"
    by blast
  show ?thesis using s(2) by (simp add: s(1))
qed

lemma try_body_status:
  "status (fst (snd (try_body env t s \<lparr>world = w, calls = []\<rparr>))) =
     (case fst (try_body env t s \<lparr>world = w, calls = []\<rparr>) of Inl e \<Rightarrow> status s | Inr u \<Rightarrow> COMPLETED)
   \<and> start_time (fst (snd (try_body env t s \<lparr>world = w, calls = []\<rparr>))) =
       Some (datetime_now env (replay env ev_start w))
   \<and> end_time (fst (snd (try_body env t s \<lparr>world = w, calls = []\<rparr>))) = end_time s"
  using try_body_summary [of env t s w]
  by (elim exE conjE) (simp split: sum.splits)

subsection \<open>Claims on the run\<close>

text \<open>
  Claim C2. The plan of a run is the one the planner returns in the world it is called
  in; it is recorded once among the interactions and \<open>total_steps\<close> is the number N of
  its steps. A run delivers exactly N \<^verbatim>\<open>activate\<close> events of node executor and at most
  N of node decision: the decision events and the failed executions together number N,
  so there are fewer than N decision events exactly when some execution failed. Each
  \<^verbatim>\<open>emit\<close> is one call of the callback with that event, at once, and the world a run
  ends in is the one obtained by performing the recorded interactions one at a time in
  their order: the callback receives the events in emission order, none re-ordered or
  batched.
\<close>

theorem run_event_counts:
  "concat (map planned (calls (snd (execute_workflow env t w)))) = [(t, planned_by env t w)]
   \<and> total_steps (fst (execute_workflow env t w)) = int (length (steps (planned_by env t w)))
   \<and> length (filter (is_activate (lit ''executor'')) (calls (snd (execute_workflow env t w))))
       = length (steps (planned_by env t w))
   \<and> length (filter (is_activate (lit ''decision'')) (calls (snd (execute_workflow env t w))))
       \<le> length (steps (planned_by env t w))
   \<and> length (filter (is_activate (lit ''decision'')) (calls (snd (execute_workflow env t w))))
       + length (filter is_failed_execution (calls (snd (execute_workflow env t w))))
       = length (steps (planned_by env t w))
   \<and> (length (filter (is_activate (lit ''decision'')) (calls (snd (execute_workflow env t w))))
         < length (steps (planned_by env t w))
       \<longleftrightarrow> filter is_failed_execution (calls (snd (execute_workflow env t w))) \<noteq> [])
   \<and> calls (emit env ty msg role node c) = calls c @ [Emitted ty (payload msg role node)]
   \<and> world (emit env ty msg role node c) = event_callback env ty (payload msg role node) (world c)
   \<and> world (snd (execute_workflow env t w)) =
       fold (replay env) (calls (snd (execute_workflow env t w))) w"
proof -
  let ?cs = "calls (snd (execute_workflow env t w))"
  note rc = run_counts [of env t w]
  have sum: "length (filter (is_activate (lit ''decision'')) ?cs) + length (filter is_failed_execution ?cs)
       = length (steps (planned_by env t w))"
    using rc by blast
  have le: "length (filter (is_activate (lit ''decision'')) ?cs) \<le> length (steps (planned_by env t w))"
    using sum by linarith
  have iff: "length (filter (is_activate (lit ''decision'')) ?cs) < length (steps (planned_by env t w))
       \<longleftrightarrow> filter is_failed_execution ?cs \<noteq> []"
    using sum by (cases "filter is_failed_execution ?cs") auto
  show ?thesis
    using rc le iff by simp
qed

lemma planned_by_down: "planned_by env_down t w = fallback_plan"
  by (simp add: planned_by_def planner_execute_def env_down_def)

theorem run_event_counts_witness:
  "length (filter (is_activate (lit ''executor''))
     (calls (snd (execute_workflow env_down (lit ''Summarize AI trends'') 0)))) = 3
   \<and> total_steps (fst (execute_workflow env_down (lit ''Summarize AI trends'') 0)) = 3
   \<and> length (filter (is_activate (lit ''decision''))
     (calls (snd (execute_workflow env_down (lit ''Summarize AI trends'') 0)))) \<le> 3"
  using run_event_counts [of env_down "lit ''Summarize AI trends''" 0]
  by (simp add: planned_by_down fallback_plan_def)

text \<open>
  Claim C3. When the executor's result for a step has status "failed", the iteration
  delivers the executing event and an error log event and nothing else: the validator is
  not invoked, no decision event is delivered, and the aggregated report is left as it
  was. The loop goes on with the remaining steps. The one synthesis request of a run is
  built from the report of the run's interactions, in which a failed execution has no part.
\<close>

theorem failed_step_skipped:
  assumes "executor_execute (co env) step (replay env (ev_executing step) (world c)) = (r, w2)"
      and "res_status r = lit ''failed''"
  shows "fst (do_step env i step acc c) = Inr acc
       \<and> calls (snd (do_step env i step acc c)) =
           calls c @ [ev_executing step, Executed step r, ev_step_failed r]
       \<and> world (snd (do_step env i step acc c)) = replay env (ev_step_failed r) w2
       \<and> run_steps env i (step # rest) acc c =
           run_steps env (Suc i) rest acc (snd (do_step env i step acc c))
       \<and> concat (map validated (calls (snd (do_step env i step acc c)))) = concat (map validated (calls c))
       \<and> filter (is_activate (lit ''decision'')) (calls (snd (do_step env i step acc c))) =
           filter (is_activate (lit ''decision'')) (calls c)
       \<and> report_of (calls (snd (do_step env i step acc c))) = report_of (calls c)
       \<and> map fst (concat (map synthesized (calls (snd (execute_workflow env t w))))) =
           [final_request t (report_of (calls (snd (execute_workflow env t w))))]"
proof -
  note f = do_step_failed [OF assms, of i acc]
  have cont: "run_steps env i (step # rest) acc c =
           run_steps env (Suc i) rest acc (snd (do_step env i step acc c))"
    using f(1) by (cases "do_step env i step acc c") simp
  have syn: "map fst (concat (map synthesized (calls (snd (execute_workflow env t w))))) =
           [final_request t (report_of (calls (snd (execute_workflow env t w))))]"
    using run_synthesis [of env t w] by (elim exE conjE) simp
  show ?thesis
    using cont syn assms(2)
    by (simp add: f report_of_def ev_executing_def ev_step_failed_def)
qed

theorem failed_step_skipped_witness:
  "fst (do_step env_down 0 (lit ''Step A'') [] \<lparr>world = 0, calls = []\<rparr>) = Inr []
   \<and> calls (snd (do_step env_down 0 (lit ''Step A'') [] \<lparr>world = 0, calls = []\<rparr>)) =
       [ev_executing (lit ''Step A''),
        Executed (lit ''Step A'')
          \<lparr>res_status = lit ''failed'', res_output = lit ''timeout'', res_confidence = 0,
           res_citations = None\<rparr>,
        ev_step_failed
          \<lparr>res_status = lit ''failed'', res_output = lit ''timeout'', res_confidence = 0,
           res_citations = None\<rparr>]
   \<and> run_steps env_down 0 [lit ''Step A'', lit ''Step B''] [] \<lparr>world = 0, calls = []\<rparr> =
       run_steps env_down 1 [lit ''Step B''] []
         (snd (do_step env_down 0 (lit ''Step A'') [] \<lparr>world = 0, calls = []\<rparr>))"
proof -
  let ?r = "\<lparr>res_status = lit ''failed'', res_output = lit ''timeout'', res_confidence = 0,
           res_citations = None\<rparr>"
  have ex: "executor_execute (co env_down) (lit ''Step A'')
              (replay env_down (ev_executing (lit ''Step A'')) (world \<lparr>world = 0::nat, calls = []\<rparr>)) = (?r, 1)"
    by (simp add: executor_execute_def failed_result_def env_down_def ev_executing_def)
  have st: "res_status ?r = lit ''failed''"
    by simp
  show ?thesis
    using failed_step_skipped [OF ex st, of 0 "[]" "[lit ''Step B'']" "lit ''Summarize AI trends''" 0]
    by simp
qed





lemma co_down [simp]: "fst (co env_down req w) = Inl (Exception (lit ''timeout''))"
  by (simp add: env_down_def)

lemma co_up [simp]: "fst (co env_up req w) = Inr \<lparr>resp_text = lit ''REPORT'', resp_citations = None\<rparr>"
  by (simp add: env_up_def)

lemma run_status_down: "status (fst (execute_workflow env_down t w)) = FAILED"
  using run_synthesis [of env_down t w] by (elim exE conjE) auto

lemma run_status_up: "status (fst (execute_workflow env_up t w)) = COMPLETED"
  using run_synthesis [of env_up t w] by (elim exE conjE) auto

lemma try_body_down:
  "fst (try_body env_down t s \<lparr>world = w, calls = []\<rparr>) = Inl (Exception (lit ''timeout''))"
  using try_body_summary [of env_down t s w] by (elim exE conjE) auto

text \<open>
  Claim C1 fails on the code. The state machine of the claim has a status InProgress and
  an end time, and the source declares both (\<^verbatim>\<open>WorkflowStatus.IN_PROGRESS\<close>, the field
  \<^verbatim>\<open>end_time\<close> that \<^verbatim>\<open>get_execution_time\<close> needs), but \<^verbatim>\<open>execute_workflow\<close> assigns
  neither. With a generation client that always raises, the state that reaches the
  handler has its start time set and is still Pending, and the run ends Failed with no end
  time; with a client that always answers, the run ends Completed with no end time.
\<close>

theorem run_never_in_progress:
  "status (fst (snd (try_body env_down (lit ''Summarize AI trends'')
      (new_WorkflowState (lit ''wf_1700000000'') (lit ''Summarize AI trends'') PENDING)
      \<lparr>world = 0, calls = []\<rparr>))) = PENDING
   \<and> start_time (fst (snd (try_body env_down (lit ''Summarize AI trends'')
      (new_WorkflowState (lit ''wf_1700000000'') (lit ''Summarize AI trends'') PENDING)
      \<lparr>world = 0, calls = []\<rparr>))) = Some 1700000000000000
   \<and> status (fst (execute_workflow env_down (lit ''Summarize AI trends'') 0)) = FAILED
   \<and> end_time (fst (execute_workflow env_down (lit ''Summarize AI trends'') 0)) = None
   \<and> status (fst (execute_workflow env_up (lit ''Summarize AI trends'') 0)) = COMPLETED
   \<and> end_time (fst (execute_workflow env_up (lit ''Summarize AI trends'') 0)) = None"
proof -
  let ?t = "lit ''Summarize AI trends''"
  let ?s = "new_WorkflowState (lit ''wf_1700000000'') ?t PENDING"
  have now: "datetime_now env_down w = 1700000000000000" for w
    by (simp add: env_down_def)
  have "status ?s = PENDING"
    by (simp add: new_WorkflowState_def)
  then show ?thesis
    using try_body_status [of env_down ?t ?s 0] run_times [of env_down ?t 0] run_times [of env_up ?t 0]
    by (simp add: try_body_down run_status_down run_status_up now)
qed

text \<open>
  Claim C9 fails on the code. The helper \<^verbatim>\<open>emit\<close> puts its second argument under the
  key \<^verbatim>\<open>msg\<close> of a three-key payload, and the finish event passes the dict
  \<^verbatim>\<open>{'report': text}\<close> as that argument. In a run whose synthesis call answers "REPORT",
  the last event delivered is \<^verbatim>\<open>finish\<close> with the payload
  \<^verbatim>\<open>{"msg": {"report": "REPORT"}, "role": "info", "node": None}\<close>, and no event
  \<^verbatim>\<open>finish\<close> with the payload \<^verbatim>\<open>{"report": "REPORT"}\<close> is delivered.
\<close>

theorem finish_payload_nested:
  "last (calls (snd (execute_workflow env_up (lit ''Summarize AI trends'') 0))) =
     Emitted (lit ''finish'')
       [(lit ''msg'', VDict [(lit ''report'', VStr (lit ''REPORT''))]),
        (lit ''role'', VStr (lit ''info'')), (lit ''node'', VNone)]
   \<and> Emitted (lit ''finish'') [(lit ''report'', VStr (lit ''REPORT''))]
       \<notin> set (calls (snd (execute_workflow env_up (lit ''Summarize AI trends'') 0)))"
proof
  let ?t = "lit ''Summarize AI trends''"
  from run_synthesis [of env_up ?t 0] obtain r w6 where r:
    "fst (co env_up (final_request ?t (report_of (calls (snd (execute_workflow env_up ?t 0))))) w6) = r"
    "last (calls (snd (execute_workflow env_up ?t 0))) = ev_last r"
    by (elim exE conjE) (rule that; assumption)
  from r(1) have "r = Inr \<lparr>resp_text = lit ''REPORT'', resp_citations = None\<rparr>" by simp
  with r(2) show "last (calls (snd (execute_workflow env_up ?t 0))) =
     Emitted (lit ''finish'')
       [(lit ''msg'', VDict [(lit ''report'', VStr (lit ''REPORT''))]),
        (lit ''role'', VStr (lit ''info'')), (lit ''node'', VNone)]"
    by (simp add: ev_last_def ev_finish_def payload_def)
  show "Emitted (lit ''finish'') [(lit ''report'', VStr (lit ''REPORT''))]
       \<notin> set (calls (snd (execute_workflow env_up ?t 0)))"
  proof
    assume "Emitted (lit ''finish'') [(lit ''report'', VStr (lit ''REPORT''))]
       \<in> set (calls (snd (execute_workflow env_up ?t 0)))"
    then have "[lit ''report''] \<in> set (concat (map payload_keys (calls (snd (execute_workflow env_up ?t 0)))))"
      by force
    with run_payload_keys [of env_up ?t 0] show False
      by (auto simp add: lit_def)
  qed
qed

end
